theory Spec2Isabelle
  imports Complex_Main "HOL-Library.Sublist"
begin

section \<open>Values: cells, floating-point numbers, errors\<close>

text \<open>
  The script \<^verbatim>\<open>analysis.py\<close> is one straight-line sequence of pandas calls on a table
  \<^verbatim>\<open>df\<close>. The table holds, in each cell, either a float or a Python string; a missing
  value is the float NaN, as in pandas.

  A float is a finite real number, one of the two infinities, or NaN. Arithmetic on
  finite values is taken exact: rounding, overflow of finite results, signed zeros and
  integer columns are not represented, so the value that the embedding gives to a finite
  computation is the exact one, which the script's binary64 result only approximates. The
  rules for the infinities and for NaN are those of IEEE 754, which numpy follows (a
  float division by zero yields an infinity or NaN, it does not raise). The statements
  below about which rows are kept, about missing values and about the sign of a result
  do not depend on the rounding. On the sample file the exact values are the binary64
  ones.

  A Python string is a list of characters, one list element for each character.
\<close>

datatype float = NaN | NInf | Fin real | PInf

datatype cell = Float float | Str string

datatype error = KeyError string | AttributeError | TypeError | ValueError | IndexError

fun fsub :: "float \<Rightarrow> float \<Rightarrow> float" where
  "fsub NaN _ = NaN"
| "fsub _ NaN = NaN"
| "fsub (Fin a) (Fin b) = Fin (a - b)"
| "fsub (Fin a) PInf = NInf"
| "fsub (Fin a) NInf = PInf"
| "fsub PInf PInf = NaN"
| "fsub PInf _ = PInf"
| "fsub NInf NInf = NaN"
| "fsub NInf _ = NInf"

definition fsign :: "float \<Rightarrow> int" where
  "fsign x = (case x of NaN \<Rightarrow> 0 | NInf \<Rightarrow> - 1 | PInf \<Rightarrow> 1
                | Fin a \<Rightarrow> (if a < 0 then - 1 else if a = 0 then 0 else 1))"

definition finf :: "int \<Rightarrow> float" where
  "finf s = (if s < 0 then NInf else if s = 0 then NaN else PInf)"

fun fdiv :: "float \<Rightarrow> float \<Rightarrow> float" where
  "fdiv NaN _ = NaN"
| "fdiv _ NaN = NaN"
| "fdiv (Fin a) (Fin b) = (if b = 0 then finf (fsign (Fin a)) else Fin (a / b))"
| "fdiv (Fin a) _ = Fin 0"
| "fdiv x (Fin b) = (if b = 0 then x else finf (fsign x * fsign (Fin b)))"
| "fdiv _ _ = NaN"

fun fmul :: "float \<Rightarrow> float \<Rightarrow> float" where
  "fmul NaN _ = NaN"
| "fmul _ NaN = NaN"
| "fmul (Fin a) (Fin b) = Fin (a * b)"
| "fmul x y = finf (fsign x * fsign y)"

fun fgt :: "float \<Rightarrow> float \<Rightarrow> bool" where
  "fgt NaN _ = False"
| "fgt _ NaN = False"
| "fgt NInf _ = False"
| "fgt _ NInf = True"
| "fgt (Fin a) (Fin b) = (a > b)"
| "fgt (Fin a) PInf = False"
| "fgt PInf (Fin b) = True"
| "fgt PInf PInf = False"

definition bind_result :: "error + 'a \<Rightarrow> ('a \<Rightarrow> error + 'b) \<Rightarrow> error + 'b" where
  "bind_result m f = (case m of Inl e \<Rightarrow> Inl e | Inr x \<Rightarrow> f x)"

text \<open>Running a function that may raise over a list stops at the first element that raises.\<close>

fun try_map :: "('a \<Rightarrow> error + 'b) \<Rightarrow> 'a list \<Rightarrow> error + 'b list" where
  "try_map f [] = Inr []"
| "try_map f (x # xs) =
     (case f x of Inl e \<Rightarrow> Inl e
      | Inr y \<Rightarrow> (case try_map f xs of Inl e \<Rightarrow> Inl e | Inr ys \<Rightarrow> Inr (y # ys)))"

section \<open>Python strings\<close>

text \<open>
  \<^verbatim>\<open>s.split(sep)\<close>: the pieces of \<open>s\<close> between the successive, non-overlapping occurrences
  of \<open>sep\<close>, scanned from the left; the list is never empty. An empty separator raises
  \<^verbatim>\<open>ValueError\<close>. \<open>cur\<close> collects, reversed, the piece being read.
\<close>

fun split_from :: "string \<Rightarrow> string \<Rightarrow> string \<Rightarrow> string list" where
  "split_from sep cur [] = [rev cur]"
| "split_from sep cur (c # s) =
     (if prefix sep (c # s) then rev cur # split_from sep [] (drop (length sep - 1) s)
      else split_from sep (c # cur) s)"

definition str_split :: "string \<Rightarrow> string \<Rightarrow> error + string list" where
  "str_split sep s = (if sep = [] then Inl ValueError else Inr (split_from sep [] s))"

text \<open>\<^verbatim>\<open>xs[0]\<close> raises \<^verbatim>\<open>IndexError\<close> on an empty list; \<^verbatim>\<open>s[2:]\<close> never raises.\<close>

definition item0 :: "'a list \<Rightarrow> error + 'a" where
  "item0 xs = (case xs of [] \<Rightarrow> Inl IndexError | x # _ \<Rightarrow> Inr x)"

definition slice_from :: "nat \<Rightarrow> string \<Rightarrow> string" where
  "slice_from n s = drop n s"

text \<open>Whether \<open>sep\<close> occurs in \<open>s\<close> as a contiguous substring.\<close>

fun occurs :: "string \<Rightarrow> string \<Rightarrow> bool" where
  "occurs sep [] = (sep = [])"
| "occurs sep (c # s) = (prefix sep (c # s) \<or> occurs sep s)"

section \<open>The pandas operations the script calls\<close>

text \<open>
  A DataFrame is its list of column labels, in order, and its rows, in order, each with
  its index label. A row gives the cell under each column label; it is only ever read at
  a label of \<open>columns\<close> (reading any other label raises \<^verbatim>\<open>KeyError\<close>). A Series is a
  list of values, each with its index label. Column dtypes are not represented: every
  operation acts cell by cell, as pandas does on an object column.
\<close>

type_synonym row = "string \<Rightarrow> cell"

type_synonym 'a series = "(nat \<times> 'a) list"

record dataframe =
  columns :: "string list"
  rows :: "(nat \<times> row) list"

text \<open>\<^verbatim>\<open>pd.read_csv\<close> labels the rows of the file 0, 1, 2, ... (a RangeIndex).\<close>

definition read_csv :: "string list \<Rightarrow> row list \<Rightarrow> dataframe" where
  "read_csv cols data = \<lparr>columns = cols, rows = enumerate 0 data\<rparr>"

text \<open>\<^verbatim>\<open>df.drop(labels, axis=1, inplace=True)\<close>: a label that is no column raises.\<close>

definition drop_columns :: "string list \<Rightarrow> dataframe \<Rightarrow> error + dataframe" where
  "drop_columns labels df =
     (case filter (\<lambda>l. l \<notin> set (columns df)) labels of
        l # _ \<Rightarrow> Inl (KeyError l)
      | [] \<Rightarrow> Inr (df\<lparr>columns := filter (\<lambda>c. c \<notin> set labels) (columns df)\<rparr>))"

definition isna :: "cell \<Rightarrow> bool" where
  "isna x = (x = Float NaN)"

text \<open>\<^verbatim>\<open>df.dropna(subset=labels, inplace=True)\<close>: drops the rows missing any of the labels.\<close>

definition dropna :: "string list \<Rightarrow> dataframe \<Rightarrow> error + dataframe" where
  "dropna labels df =
     (case filter (\<lambda>l. l \<notin> set (columns df)) labels of
        l # _ \<Rightarrow> Inl (KeyError l)
      | [] \<Rightarrow> Inr (df\<lparr>rows := filter (\<lambda>(i, r). \<forall>l \<in> set labels. \<not> isna (r l)) (rows df)\<rparr>))"

text \<open>\<^verbatim>\<open>df[c]\<close>, reading a column.\<close>

definition getitem :: "string \<Rightarrow> dataframe \<Rightarrow> error + cell series" where
  "getitem c df =
     (if c \<in> set (columns df) then Inr (map (\<lambda>(i, r). (i, r c)) (rows df))
      else Inl (KeyError c))"

text \<open>
  \<^verbatim>\<open>df[c] = s\<close>: the values of \<open>s\<close> are aligned on the index labels of the table (a label
  that \<open>s\<close> lacks gets NaN); a new label is appended to the columns.
\<close>

definition add_label :: "string \<Rightarrow> string list \<Rightarrow> string list" where
  "add_label c cs = (if c \<in> set cs then cs else cs @ [c])"

definition setitem :: "string \<Rightarrow> cell series \<Rightarrow> dataframe \<Rightarrow> dataframe" where
  "setitem c s df =
     \<lparr>columns = add_label c (columns df),
      rows = map (\<lambda>(i, r). (i, r(c := (case map_of s i of None \<Rightarrow> Float NaN | Some v \<Rightarrow> v))))
               (rows df)\<rparr>"

text \<open>\<^verbatim>\<open>df[mask]\<close> with a boolean Series: the rows whose label the mask maps to True.\<close>

definition getitem_mask :: "bool series \<Rightarrow> dataframe \<Rightarrow> dataframe" where
  "getitem_mask keep df = df\<lparr>rows := filter (\<lambda>(i, r). map_of keep i = Some True) (rows df)\<rparr>"

text \<open>\<^verbatim>\<open>s.fillna(v)\<close>.\<close>

definition fillna :: "cell \<Rightarrow> cell series \<Rightarrow> cell series" where
  "fillna v s = map (\<lambda>(i, x). (i, if isna x then v else x)) s"

text \<open>
  \<^verbatim>\<open>pd.to_numeric(s, errors='coerce')\<close>: a float stays, a string becomes the number it
  parses to, and NaN when it does not parse. The parser of strings is pandas' own, taken
  here as the parameter \<open>parse\<close>.
\<close>

definition to_numeric_cell :: "(string \<Rightarrow> float option) \<Rightarrow> cell \<Rightarrow> cell" where
  "to_numeric_cell parse x =
     (case x of Float a \<Rightarrow> Float a
      | Str s \<Rightarrow> (case parse s of None \<Rightarrow> Float NaN | Some a \<Rightarrow> Float a))"

definition to_numeric :: "(string \<Rightarrow> float option) \<Rightarrow> cell series \<Rightarrow> cell series" where
  "to_numeric parse s = map (\<lambda>(i, x). (i, to_numeric_cell parse x)) s"

text \<open>\<^verbatim>\<open>s.apply(f)\<close> calls \<open>f\<close> on each value in turn; an exception of \<open>f\<close> ends the script.\<close>

definition series_apply :: "('a \<Rightarrow> error + 'b) \<Rightarrow> 'a series \<Rightarrow> error + 'b series" where
  "series_apply f s = try_map (\<lambda>(i, x). case f x of Inl e \<Rightarrow> Inl e | Inr y \<Rightarrow> Inr (i, y)) s"

text \<open>
  An operator between two Series of one table, or a Series and a scalar, acts value by
  value. Python raises \<^verbatim>\<open>TypeError\<close> when an operand is a string.
\<close>

definition arith :: "(float \<Rightarrow> float \<Rightarrow> float) \<Rightarrow> cell \<Rightarrow> cell \<Rightarrow> error + cell" where
  "arith f x y =
     (case x of Str _ \<Rightarrow> Inl TypeError
      | Float a \<Rightarrow> (case y of Str _ \<Rightarrow> Inl TypeError | Float b \<Rightarrow> Inr (Float (f a b))))"

definition compare :: "(float \<Rightarrow> float \<Rightarrow> bool) \<Rightarrow> cell \<Rightarrow> cell \<Rightarrow> error + bool" where
  "compare f x y =
     (case x of Str _ \<Rightarrow> Inl TypeError
      | Float a \<Rightarrow> (case y of Str _ \<Rightarrow> Inl TypeError | Float b \<Rightarrow> Inr (f a b)))"

definition series_op :: "('a \<Rightarrow> 'b \<Rightarrow> error + 'c) \<Rightarrow> 'a series \<Rightarrow> 'b series \<Rightarrow> error + 'c series" where
  "series_op f s t =
     try_map (\<lambda>((i, x), (j, y)). case f x y of Inl e \<Rightarrow> Inl e | Inr z \<Rightarrow> Inr (i, z)) (zip s t)"

definition series_scalar :: "('a \<Rightarrow> 'b \<Rightarrow> error + 'c) \<Rightarrow> 'a series \<Rightarrow> 'b \<Rightarrow> error + 'c series" where
  "series_scalar f s k = series_apply (\<lambda>x. f x k) s"

text \<open>\<^verbatim>\<open>s.str.len()\<close>: the number of characters of a string, NaN for any other value.\<close>

definition str_len :: "cell series \<Rightarrow> cell series" where
  "str_len s = map (\<lambda>(i, x). (i, case x of Str t \<Rightarrow> Float (Fin (real (length t)))
                                    | Float _ \<Rightarrow> Float NaN)) s"

text \<open>
  \<^verbatim>\<open>s.value_counts()\<close>: each distinct non-missing value with its number of occurrences,
  by decreasing count; \<^verbatim>\<open>.head(n)\<close> keeps the first \<open>n\<close> entries. pandas does not say in
  which order it puts values of equal count; here they come in the order of their first
  occurrence, and no statement below depends on the order of values of equal count.
\<close>

definition value_counts :: "cell series \<Rightarrow> (cell \<times> nat) list" where
  "value_counts s =
     (let vals = filter (\<lambda>x. \<not> isna x) (map snd s)
      in sort_key (\<lambda>(v, n). - int n)
           (map (\<lambda>v. (v, count_list vals v)) (rev (remdups (rev vals)))))"

definition head :: "nat \<Rightarrow> 'a list \<Rightarrow> 'a list" where
  "head n xs = take n xs"

text \<open>
  \<^verbatim>\<open>df.to_csv(path, index=...)\<close>: a header line of column labels, then one line for each
  row with its cell under each column. With \<^verbatim>\<open>index=True\<close> a first column carries the
  index labels, under an empty header. The text that pandas prints for each cell is not
  represented: the file is the grid of the cells.
\<close>

record csv_file =
  header :: "string list"
  lines :: "cell list list"

definition to_csv :: "bool \<Rightarrow> dataframe \<Rightarrow> csv_file" where
  "to_csv index df =
     \<lparr>header = (if index then [[]] else []) @ columns df,
      lines = map (\<lambda>(i, r). (if index then [Float (Fin (real i))] else []) @ map r (columns df))
                (rows df)\<rparr>"

section \<open>The script\<close>

subsection \<open>Data cleaning (lines 23 to 39)\<close>

definition dropped_columns :: "string list" where
  "dropped_columns =
     [''uniq_id'', ''crawl_timestamp'', ''product_url'', ''pid'', ''image'',
      ''is_FK_Advantage_product'', ''overall_rating'', ''product_specifications'']"

text \<open>
  \<^verbatim>\<open>df['description'].fillna('', inplace=True)\<close> fills the column of the table itself
  (pandas without copy-on-write, where \<^verbatim>\<open>df[c]\<close> is a view of the table).
\<close>

definition clean :: "(string \<Rightarrow> float option) \<Rightarrow> dataframe \<Rightarrow> error + dataframe" where
  "clean parse df0 =
     bind_result (drop_columns dropped_columns df0) (\<lambda>df.
     bind_result (dropna [''brand''] df) (\<lambda>df.
     bind_result (getitem ''description'' df) (\<lambda>desc.
     let df = setitem ''description'' (fillna (Str []) desc) df in
     bind_result (getitem ''retail_price'' df) (\<lambda>rp.
     let df = setitem ''retail_price'' (to_numeric parse rp) df in
     bind_result (getitem ''discounted_price'' df) (\<lambda>dp.
     let df = setitem ''discounted_price'' (to_numeric parse dp) df in
     bind_result (dropna [''retail_price'', ''discounted_price''] df) (\<lambda>df.
     bind_result (getitem ''retail_price'' df) (\<lambda>rp.
     bind_result (series_scalar (compare fgt) rp (Float (Fin 0))) (\<lambda>positive.
     let df = getitem_mask positive df in
     bind_result (getitem ''product_rating'' df) (\<lambda>pr.
     let df = setitem ''product_rating'' (to_numeric parse pr) df in
     dropna [''product_rating''] df)))))))))"

subsection \<open>Category analysis (line 42)\<close>

text \<open>\<^verbatim>\<open>lambda x: x.split('>>')[0][2:]\<close>; a float has no \<^verbatim>\<open>split\<close>.\<close>

definition category_root :: "cell \<Rightarrow> error + cell" where
  "category_root x =
     (case x of Float _ \<Rightarrow> Inl AttributeError
      | Str s \<Rightarrow>
          bind_result (str_split ''>>'' s) (\<lambda>parts.
          bind_result (item0 parts) (\<lambda>p.
          Inr (Str (slice_from 2 p)))))"

definition categorise :: "dataframe \<Rightarrow> error + dataframe" where
  "categorise df =
     bind_result (getitem ''product_category_tree'' df) (\<lambda>tree.
     bind_result (series_apply category_root tree) (\<lambda>root.
     Inr (setitem ''product_category_tree'' root df)))"

subsection \<open>Derived columns (lines 95, 106 and 123)\<close>

definition add_description_length :: "dataframe \<Rightarrow> error + dataframe" where
  "add_description_length df =
     bind_result (getitem ''description'' df) (\<lambda>desc.
     Inr (setitem ''description_length'' (str_len desc) df))"

definition add_discount_percentage :: "dataframe \<Rightarrow> error + dataframe" where
  "add_discount_percentage df =
     bind_result (getitem ''retail_price'' df) (\<lambda>rp.
     bind_result (getitem ''discounted_price'' df) (\<lambda>dp.
     bind_result (series_op (arith fsub) rp dp) (\<lambda>off.
     bind_result (getitem ''retail_price'' df) (\<lambda>rp.
     bind_result (series_op (arith fdiv) off rp) (\<lambda>ratio.
     bind_result (series_scalar (arith fmul) ratio (Float (Fin 100))) (\<lambda>pct.
     Inr (setitem ''discount_percentage'' pct df)))))))"

text \<open>
  \<^verbatim>\<open>TextBlob(x).sentiment.polarity\<close>: the polarity of a text is TextBlob's own, taken here
  as the parameter \<open>polarity\<close>; \<^verbatim>\<open>TextBlob\<close> raises \<^verbatim>\<open>TypeError\<close> on a value that is not a
  string.
\<close>

definition sentiment_of :: "(string \<Rightarrow> real) \<Rightarrow> cell \<Rightarrow> error + cell" where
  "sentiment_of polarity x =
     (case x of Float _ \<Rightarrow> Inl TypeError | Str s \<Rightarrow> Inr (Float (Fin (polarity s))))"

definition add_sentiment :: "(string \<Rightarrow> real) \<Rightarrow> dataframe \<Rightarrow> error + dataframe" where
  "add_sentiment polarity df =
     bind_result (getitem ''description'' df) (\<lambda>desc.
     bind_result (series_apply (sentiment_of polarity) desc) (\<lambda>sent.
     Inr (setitem ''sentiment'' sent df)))"

subsection \<open>The whole run (lines 14 to 135)\<close>

text \<open>
  The run yields the two rankings that the first two charts draw, the table \<^verbatim>\<open>df\<close> as
  it stands at the end, and the file \<^verbatim>\<open>cleaned_data.csv\<close> written from it. Drawing a
  chart reads the table and changes nothing in it; the charts drawn from columns alone
  (the histogram, the scatter plots, the mean discount of each category) are left out, and
  so is everything that rendering or writing a file can raise.
\<close>

record outputs =
  category_counts :: "(cell \<times> nat) list"
  brand_counts :: "(cell \<times> nat) list"
  cleaned :: dataframe
  cleaned_data :: csv_file

definition analysis ::
  "(string \<Rightarrow> float option) \<Rightarrow> (string \<Rightarrow> real) \<Rightarrow> string list \<Rightarrow> row list \<Rightarrow> error + outputs" where
  "analysis parse polarity cols data =
     (let df0 = read_csv cols data in
      bind_result (clean parse df0) (\<lambda>df.
      bind_result (categorise df) (\<lambda>df.
      bind_result (getitem ''product_category_tree'' df) (\<lambda>cat.
      let cc = head 10 (value_counts cat) in
      bind_result (getitem ''brand'' df) (\<lambda>br.
      let bc = head 10 (value_counts br) in
      bind_result (add_description_length df) (\<lambda>df.
      bind_result (add_discount_percentage df) (\<lambda>df.
      bind_result (add_sentiment polarity df) (\<lambda>df.
      Inr \<lparr>category_counts = cc, brand_counts = bc, cleaned = df,
           cleaned_data = to_csv False df\<rparr>))))))))"

section \<open>The run, row by row\<close>

text \<open>
  The script works column by column. The definitions of this section say, row by row,
  what a run does: which rows it keeps, what it makes of a row it keeps, and when it
  completes. The lemmas below prove that the script computes exactly this.
\<close>

text \<open>The values of a column, and a table, got from rows \<open>rs\<close> by keeping those with \<open>P\<close>.\<close>

definition col :: "(row \<Rightarrow> 'a) \<Rightarrow> (row \<Rightarrow> bool) \<Rightarrow> (nat \<times> row) list \<Rightarrow> 'a series" where
  "col v P rs = map (\<lambda>(i, r). (i, v r)) (filter (\<lambda>(i, r). P r) rs)"

definition frame ::
  "string list \<Rightarrow> (row \<Rightarrow> bool) \<Rightarrow> (row \<Rightarrow> row) \<Rightarrow> (nat \<times> row) list \<Rightarrow> dataframe" where
  "frame cs P g rs = \<lparr>columns = cs, rows = col g P rs\<rparr>"

text \<open>The float that \<^verbatim>\<open>to_numeric\<close> leaves in a cell.\<close>

definition numeric :: "(string \<Rightarrow> float option) \<Rightarrow> cell \<Rightarrow> float" where
  "numeric parse x = (case to_numeric_cell parse x of Float a \<Rightarrow> a | Str _ \<Rightarrow> NaN)"

text \<open>The five filters of the cleaning, in the order of the script.\<close>

definition keeps :: "(string \<Rightarrow> float option) \<Rightarrow> row \<Rightarrow> bool" where
  "keeps parse r \<longleftrightarrow>
     \<not> isna (r ''brand'') \<and>
     numeric parse (r ''retail_price'') \<noteq> NaN \<and>
     numeric parse (r ''discounted_price'') \<noteq> NaN \<and>
     fgt (numeric parse (r ''retail_price'')) (Fin 0) \<and>
     numeric parse (r ''product_rating'') \<noteq> NaN"

definition clean_row :: "(string \<Rightarrow> float option) \<Rightarrow> row \<Rightarrow> row" where
  "clean_row parse r =
     r(''description'' := (if isna (r ''description'') then Str [] else r ''description''),
       ''retail_price'' := Float (numeric parse (r ''retail_price'')),
       ''discounted_price'' := Float (numeric parse (r ''discounted_price'')),
       ''product_rating'' := Float (numeric parse (r ''product_rating'')))"

definition root_of :: "string \<Rightarrow> string" where
  "root_of s = slice_from 2 (hd (split_from ''>>'' [] s))"

definition discount_of :: "float \<Rightarrow> float \<Rightarrow> float" where
  "discount_of rp dp = fmul (fdiv (fsub rp dp) rp) (Fin 100)"

definition final_row :: "(string \<Rightarrow> float option) \<Rightarrow> (string \<Rightarrow> real) \<Rightarrow> row \<Rightarrow> row" where
  "final_row parse polarity r =
     (clean_row parse r)
       (''product_category_tree'' := projr (category_root (r ''product_category_tree'')),
        ''description_length'' :=
           (case clean_row parse r ''description'' of
              Float _ \<Rightarrow> Float NaN
            | Str t \<Rightarrow> Float (Fin (real (length t)))),
        ''discount_percentage'' :=
           Float (discount_of (numeric parse (r ''retail_price''))
                    (numeric parse (r ''discounted_price''))),
        ''sentiment'' := projr (sentiment_of polarity (clean_row parse r ''description'')))"

definition final_columns :: "string list \<Rightarrow> string list" where
  "final_columns cols =
     add_label ''sentiment'' (add_label ''discount_percentage'' (add_label ''description_length''
       (filter (\<lambda>c. c \<notin> set dropped_columns) cols)))"

definition used_columns :: "string list" where
  "used_columns =
     [''brand'', ''description'', ''retail_price'', ''discounted_price'', ''product_rating'',
      ''product_category_tree'']"

definition is_str :: "cell \<Rightarrow> bool" where
  "is_str x = (case x of Float _ \<Rightarrow> False | Str _ \<Rightarrow> True)"

text \<open>
  A run completes when the file has the columns the script names, and every row it keeps
  has a string for its category path and a string, or nothing, for its description.
\<close>

definition completes :: "(string \<Rightarrow> float option) \<Rightarrow> string list \<Rightarrow> row list \<Rightarrow> bool" where
  "completes parse cols data \<longleftrightarrow>
     set dropped_columns \<subseteq> set cols \<and> set used_columns \<subseteq> set cols \<and>
     (\<forall>r \<in> set data. keeps parse r \<longrightarrow>
        is_str (r ''product_category_tree'') \<and>
        (isna (r ''description'') \<or> is_str (r ''description'')))"

definition final_outputs ::
  "(string \<Rightarrow> float option) \<Rightarrow> (string \<Rightarrow> real) \<Rightarrow> string list \<Rightarrow> row list \<Rightarrow> outputs" where
  "final_outputs parse polarity cols data =
     (let rs = enumerate 0 data;
          df = frame (final_columns cols) (keeps parse) (final_row parse polarity) rs
      in \<lparr>category_counts =
             head 10 (value_counts
               (col (\<lambda>r. projr (category_root (r ''product_category_tree''))) (keeps parse) rs)),
          brand_counts = head 10 (value_counts (col (\<lambda>r. r ''brand'') (keeps parse) rs)),
          cleaned = df,
          cleaned_data = to_csv False df\<rparr>)"

section \<open>The filters, in the words of the specification\<close>

text \<open>
  A value parses as a number when \<^verbatim>\<open>to_numeric\<close> leaves a value that is not missing; it
  is strictly positive when the comparison \<^verbatim>\<open>> 0\<close> of the script holds of that value.
\<close>

definition parses_as_number :: "(string \<Rightarrow> float option) \<Rightarrow> cell \<Rightarrow> bool" where
  "parses_as_number parse x \<longleftrightarrow> \<not> isna (to_numeric_cell parse x)"

definition strictly_positive :: "(string \<Rightarrow> float option) \<Rightarrow> cell \<Rightarrow> bool" where
  "strictly_positive parse x \<longleftrightarrow>
     compare fgt (to_numeric_cell parse x) (Float (Fin 0)) = Inr True"

definition passes_filters :: "(string \<Rightarrow> float option) \<Rightarrow> row \<Rightarrow> bool" where
  "passes_filters parse r \<longleftrightarrow>
     \<not> isna (r ''brand'') \<and>
     parses_as_number parse (r ''retail_price'') \<and>
     strictly_positive parse (r ''retail_price'') \<and>
     parses_as_number parse (r ''discounted_price'') \<and>
     parses_as_number parse (r ''product_rating'')"

text \<open>The values of a column of a table, in the order of its rows.\<close>

definition column_values :: "string \<Rightarrow> dataframe \<Rightarrow> cell list" where
  "column_values c df = map (\<lambda>(i, r). r c) (rows df)"

section \<open>A sample file\<close>

text \<open>
  Seven rows under the columns of the Flipkart sample: a row is given by the cells it
  has, its other fields are empty. Rows 0, 3 and 6 pass the filters; row 1 has no brand,
  row 2 a retail price that is no number, row 4 a retail price of zero, row 5 a rating
  that is no number (and no category path). Row 3 has no description and a discounted
  price above its retail price; row 6 has a discounted price of zero.
\<close>

definition mk_row :: "(string \<times> cell) list \<Rightarrow> row" where
  "mk_row cells = (\<lambda>c. case map_of cells c of None \<Rightarrow> Float NaN | Some x \<Rightarrow> x)"

definition sample_columns :: "string list" where
  "sample_columns =
     [''uniq_id'', ''crawl_timestamp'', ''product_url'', ''product_name'',
      ''product_category_tree'', ''pid'', ''retail_price'', ''discounted_price'', ''image'',
      ''is_FK_Advantage_product'', ''description'', ''product_rating'', ''overall_rating'',
      ''brand'', ''product_specifications'']"

definition sample_parse :: "string \<Rightarrow> float option" where
  "sample_parse = map_of [(''800'', Fin 800), (''4.5'', Fin (9 / 2)), (''3'', Fin 3)]"

definition sample_polarity :: "string \<Rightarrow> real" where
  "sample_polarity s = (if s = ''good'' then 1 / 2 else 0)"

definition sample_data :: "row list" where
  "sample_data =
     [mk_row [(''product_category_tree'', Str ''[\"Clothing >> Women's Clothing >> ...''),
              (''brand'', Str ''Acme''), (''retail_price'', Float (Fin 1000)),
              (''discounted_price'', Str ''800''), (''product_rating'', Str ''4.5''),
              (''description'', Str ''good'')],
      mk_row [(''product_category_tree'', Str ''[\"Toys >> Games''),
              (''retail_price'', Float (Fin 500)), (''discounted_price'', Float (Fin 400)),
              (''product_rating'', Str ''3''), (''description'', Str ''fun'')],
      mk_row [(''product_category_tree'', Str ''[\"Toys >> Games''),
              (''brand'', Str ''Acme''), (''retail_price'', Str ''abc''),
              (''discounted_price'', Float (Fin 400)), (''product_rating'', Str ''3'')],
      mk_row [(''product_category_tree'', Str ''[\"Toys''),
              (''brand'', Str ''Bolt''), (''retail_price'', Float (Fin 500)),
              (''discounted_price'', Float (Fin 700)), (''product_rating'', Str ''3'')],
      mk_row [(''product_category_tree'', Str ''[\"Toys''),
              (''brand'', Str ''Bolt''), (''retail_price'', Float (Fin 0)),
              (''discounted_price'', Float (Fin 0)), (''product_rating'', Str ''3'')],
      mk_row [(''brand'', Str ''Bolt''), (''retail_price'', Float (Fin 10)),
              (''discounted_price'', Float (Fin 5)),
              (''product_rating'', Str ''No rating available'')],
      mk_row [(''product_category_tree'', Str ''[\"Toys''),
              (''brand'', Str ''Bolt''), (''retail_price'', Float (Fin 200)),
              (''discounted_price'', Float (Fin 0)), (''product_rating'', Float (Fin 4)),
              (''description'', Str ''good'')]]"


text \<open>A file of one row, which passes the filters and has no category path.\<close>

definition no_category_data :: "row list" where
  "no_category_data =
     [mk_row [(''brand'', Str ''Bolt''), (''retail_price'', Float (Fin 10)),
              (''discounted_price'', Float (Fin 5)), (''product_rating'', Float (Fin 3))]]"

section \<open>The script computes the row-by-row run\<close>

subsection \<open>Columns and tables as functions of the rows\<close>

lemma read_csv_frame: "read_csv cols data = frame cols (\<lambda>r. True) (\<lambda>r. r) (enumerate 0 data)"
  by (simp add: read_csv_def frame_def col_def)

lemma try_map_ok:
  "\<forall>x \<in> set xs. \<not> isl (f x) \<Longrightarrow> try_map f xs = Inr (map (\<lambda>x. projr (f x)) xs)"
  by (induction xs) (auto split: sum.splits)

lemma try_map_InrD: "try_map f xs = Inr ys \<Longrightarrow> \<forall>x \<in> set xs. \<not> isl (f x)"
  by (induction xs arbitrary: ys) (auto split: sum.splits)

lemma try_map_Inr_iff:
  "try_map f xs = Inr ys \<longleftrightarrow> (\<forall>x \<in> set xs. \<not> isl (f x)) \<and> ys = map (\<lambda>x. projr (f x)) xs"
  using try_map_ok[of xs f] try_map_InrD[of f xs ys] by auto

lemma try_map_InlD: "try_map f xs = Inl e \<Longrightarrow> \<exists>x \<in> set xs. f x = Inl e"
  by (induction xs) (auto split: sum.splits)

lemma col_cong:
  "(\<And>i r. (i, r) \<in> set rs \<Longrightarrow> P r = Q r) \<Longrightarrow>
   (\<And>i r. (i, r) \<in> set rs \<Longrightarrow> Q r \<Longrightarrow> v r = w r) \<Longrightarrow> col v P rs = col w Q rs"
  unfolding col_def by (induction rs) auto

lemma map_of_col:
  assumes "distinct (map fst rs)" "(i, r) \<in> set rs" "P r"
  shows "map_of (col v P rs) i = Some (v r)"
proof -
  have "distinct (map fst (col v P rs))"
    using assms(1) unfolding col_def
    by (induction rs) (auto simp: image_iff)
  moreover have "(i, v r) \<in> set (col v P rs)"
    using assms(2,3) unfolding col_def by force
  ultimately show ?thesis by simp
qed

lemma setitem_frame:
  assumes "distinct (map fst rs)"
  shows "setitem c (col v P rs) (frame cs P g rs) =
    frame (add_label c cs) P (\<lambda>r. (g r)(c := v r)) rs"
proof -
  have "map (\<lambda>(i, r). (i, r(c := (case map_of (col v P rs) i of None \<Rightarrow> Float NaN | Some x \<Rightarrow> x))))
          (col g P rs) = col (\<lambda>r. (g r)(c := v r)) P rs"
    unfolding col_def[of g] col_def[of "\<lambda>r. (g r)(c := v r)"]
    by (auto simp: map_of_col[OF assms])
  then show ?thesis by (simp add: setitem_def frame_def)
qed

lemma getitem_mask_frame:
  assumes "distinct (map fst rs)"
  shows "getitem_mask (col b P rs) (frame cs P g rs) = frame cs (\<lambda>r. P r \<and> b r) g rs"
proof -
  have "filter (\<lambda>(i, r). map_of (col b P rs) i = Some True) (col g P rs) =
        col g (\<lambda>r. P r \<and> b r) rs"
    unfolding col_def[of g]
    by (auto simp: filter_map comp_def map_of_col[OF assms]
        intro!: filter_cong arg_cong[where f="map _"])
  then show ?thesis by (simp add: getitem_mask_def frame_def)
qed

lemma getitem_frame_iff:
  "getitem c (frame cs P g rs) = Inr s \<longleftrightarrow> c \<in> set cs \<and> s = col (\<lambda>r. g r c) P rs"
  by (auto simp: getitem_def frame_def col_def case_prod_unfold comp_def)

lemma no_missing_label: "set labels \<subseteq> set cs \<longleftrightarrow> filter (\<lambda>l. l \<notin> set cs) labels = []"
  by (auto simp: filter_empty_conv)

lemma dropna_frame:
  "dropna labels (frame cs P g rs) = Inr df \<longleftrightarrow>
     set labels \<subseteq> set cs \<and> df = frame cs (\<lambda>r. P r \<and> (\<forall>l \<in> set labels. \<not> isna (g r l))) g rs"
proof -
  have "filter (\<lambda>(i, r). \<forall>l \<in> set labels. \<not> isna (r l)) (col g P rs) =
        col g (\<lambda>r. P r \<and> (\<forall>l \<in> set labels. \<not> isna (g r l))) rs"
    unfolding col_def
    by (auto simp: filter_map comp_def case_prod_unfold
        intro!: filter_cong arg_cong[where f="map _"])
  then show ?thesis
    by (auto simp: dropna_def frame_def no_missing_label split: list.splits)
qed

lemma drop_columns_frame:
  "drop_columns labels (frame cs P g rs) = Inr df \<longleftrightarrow>
     set labels \<subseteq> set cs \<and> df = frame (filter (\<lambda>c. c \<notin> set labels) cs) P g rs"
  by (auto simp: drop_columns_def frame_def no_missing_label split: list.splits)

lemma fillna_col: "fillna x (col v P rs) = col (\<lambda>r. if isna (v r) then x else v r) P rs"
  by (simp add: fillna_def col_def case_prod_unfold comp_def)

lemma to_numeric_col:
  "to_numeric parse (col v P rs) = col (\<lambda>r. to_numeric_cell parse (v r)) P rs"
  by (simp add: to_numeric_def col_def case_prod_unfold comp_def)

lemma str_len_col:
  "str_len (col v P rs) =
     col (\<lambda>r. case v r of Float _ \<Rightarrow> Float NaN | Str t \<Rightarrow> Float (Fin (real (length t)))) P rs"
  by (simp add: str_len_def col_def case_prod_unfold comp_def)

lemma isl_tag: "isl (case x of Inl e \<Rightarrow> Inl e | Inr y \<Rightarrow> Inr (i, y)) = isl x"
  by (cases x) auto

lemma projr_tag:
  "\<not> isl x \<Longrightarrow> projr (case x of Inl e \<Rightarrow> Inl e | Inr y \<Rightarrow> Inr (i, y)) = (i, projr x)"
  by (cases x) auto

lemma series_apply_col:
  "series_apply f (col v P rs) = Inr s \<longleftrightarrow>
     (\<forall>(i, r) \<in> set rs. P r \<longrightarrow> \<not> isl (f (v r))) \<and> s = col (\<lambda>r. projr (f (v r))) P rs"
proof -
  let ?h = "\<lambda>(i, x). case f x of Inl e \<Rightarrow> Inl e | Inr y \<Rightarrow> Inr (i, y)"
  have a: "(\<forall>x \<in> set (col v P rs). \<not> isl (?h x)) \<longleftrightarrow>
           (\<forall>(i, r) \<in> set rs. P r \<longrightarrow> \<not> isl (f (v r)))"
    unfolding col_def by (auto simp: isl_tag)
  have b: "\<forall>x \<in> set (col v P rs). \<not> isl (?h x) \<Longrightarrow>
           map (\<lambda>x. projr (?h x)) (col v P rs) = col (\<lambda>r. projr (f (v r))) P rs"
    unfolding col_def by (auto simp: isl_tag projr_tag)
  show ?thesis
    unfolding series_apply_def try_map_Inr_iff using a b by auto
qed

lemma zip_col:
  "zip (col v P rs) (col w P rs) =
     map (\<lambda>(i, r). ((i, v r), (i, w r))) (filter (\<lambda>(i, r). P r) rs)"
  by (simp add: col_def zip_map_map zip_same_conv_map case_prod_unfold)

lemma series_op_col:
  "series_op f (col v P rs) (col w P rs) = Inr s \<longleftrightarrow>
     (\<forall>(i, r) \<in> set rs. P r \<longrightarrow> \<not> isl (f (v r) (w r))) \<and>
     s = col (\<lambda>r. projr (f (v r) (w r))) P rs"
proof -
  let ?h = "\<lambda>((i, x), (j, y)). case f x y of Inl e \<Rightarrow> Inl e | Inr z \<Rightarrow> Inr (i, z)"
  let ?zs = "zip (col v P rs) (col w P rs)"
  have a: "(\<forall>x \<in> set ?zs. \<not> isl (?h x)) \<longleftrightarrow>
           (\<forall>(i, r) \<in> set rs. P r \<longrightarrow> \<not> isl (f (v r) (w r)))"
    unfolding zip_col by (auto simp: isl_tag)
  have b: "\<forall>x \<in> set ?zs. \<not> isl (?h x) \<Longrightarrow>
           map (\<lambda>x. projr (?h x)) ?zs = col (\<lambda>r. projr (f (v r) (w r))) P rs"
    unfolding zip_col by (auto simp: col_def isl_tag projr_tag)
  show ?thesis
    unfolding series_op_def try_map_Inr_iff using a b by auto
qed

lemma series_scalar_col:
  "series_scalar f (col v P rs) k = Inr s \<longleftrightarrow>
     (\<forall>(i, r) \<in> set rs. P r \<longrightarrow> \<not> isl (f (v r) k)) \<and> s = col (\<lambda>r. projr (f (v r) k)) P rs"
  by (simp add: series_scalar_def series_apply_col)

subsection \<open>The cleaning\<close>

lemma to_numeric_cell_Float: "to_numeric_cell parse x = Float (numeric parse x)"
  by (simp add: numeric_def to_numeric_cell_def split: cell.splits option.splits)

lemma bind_result_Inr_iff: "bind_result m f = Inr y \<longleftrightarrow> (\<exists>x. m = Inr x \<and> f x = Inr y)"
  by (cases m) (auto simp: bind_result_def)

lemma compare_Float [simp]: "compare f (Float a) (Float b) = Inr (f a b)"
  by (simp add: compare_def)

lemma arith_Float [simp]: "arith f (Float a) (Float b) = Inr (Float (f a b))"
  by (simp add: arith_def)

lemma isna_Float [simp]: "isna (Float a) \<longleftrightarrow> a = NaN"
  by (simp add: isna_def)

lemma isna_Str [simp]: "\<not> isna (Str s)"
  by (simp add: isna_def)

lemma clean_frame:
  assumes d: "distinct (map fst rs)"
  shows "clean parse (frame cs (\<lambda>r. True) (\<lambda>r. r) rs) = Inr df \<longleftrightarrow>
     set dropped_columns \<subseteq> set cs \<and>
     {''brand'', ''description'', ''retail_price'', ''discounted_price'', ''product_rating''}
       \<subseteq> set cs \<and>
     df = frame (filter (\<lambda>c. c \<notin> set dropped_columns) cs) (keeps parse) (clean_row parse) rs"
  by (simp add: clean_def Let_def bind_result_Inr_iff drop_columns_frame dropna_frame
      getitem_frame_iff setitem_frame[OF d] fillna_col to_numeric_col to_numeric_cell_Float
      getitem_mask_frame[OF d] series_scalar_col keeps_def[abs_def] clean_row_def[abs_def]
      add_label_def cong: conj_cong)
     (auto simp: dropped_columns_def)

subsection \<open>The whole run\<close>

lemma split_from_not_Nil [simp]: "split_from sep cur s \<noteq> []"
  by (induction sep cur s rule: split_from.induct) auto

lemma category_root_simps [simp]:
  "category_root (Str s) = Inr (Str (root_of s))"
  "category_root (Float a) = Inl AttributeError"
  by (auto simp: category_root_def root_of_def str_split_def item0_def bind_result_def
      split: list.splits)

lemma sentiment_of_simps [simp]:
  "sentiment_of polarity (Str s) = Inr (Float (Fin (polarity s)))"
  "sentiment_of polarity (Float a) = Inl TypeError"
  by (auto simp: sentiment_of_def)

lemma clean_row_prices [simp]:
  "clean_row parse r ''retail_price'' = Float (numeric parse (r ''retail_price''))"
  "clean_row parse r ''discounted_price'' = Float (numeric parse (r ''discounted_price''))"
  "clean_row parse r ''product_rating'' = Float (numeric parse (r ''product_rating''))"
  "clean_row parse r ''brand'' = r ''brand''"
  "clean_row parse r ''product_category_tree'' = r ''product_category_tree''"
  by (simp_all add: clean_row_def)

lemma clean_row_description:
  "clean_row parse r ''description'' = (if isna (r ''description'') then Str [] else r ''description'')"
  by (simp add: clean_row_def)

lemma ball_enumerate: "(\<forall>(i, r) \<in> set (enumerate n xs). Q r) \<longleftrightarrow> (\<forall>r \<in> set xs. Q r)"
  by (induction xs arbitrary: n) auto

lemma distinct_enumerate_fst: "distinct (map fst (enumerate n xs))"
  by simp

lemma set_add_label [simp]: "set (add_label c cs) = insert c (set cs)"
  by (auto simp: add_label_def)

lemma add_label_mem: "c \<in> set cs \<Longrightarrow> add_label c cs = cs"
  by (simp add: add_label_def)

lemma used_not_dropped:
  "''brand'' \<notin> set dropped_columns" "''description'' \<notin> set dropped_columns"
  "''retail_price'' \<notin> set dropped_columns" "''discounted_price'' \<notin> set dropped_columns"
  "''product_rating'' \<notin> set dropped_columns" "''product_category_tree'' \<notin> set dropped_columns"
  by (simp_all add: dropped_columns_def)

lemma analysis_steps:
  "analysis parse polarity cols data = Inr out \<longleftrightarrow>
     set dropped_columns \<subseteq> set cols \<and>
     ''brand'' \<in> set cols \<and> ''description'' \<in> set cols \<and> ''retail_price'' \<in> set cols \<and>
     ''discounted_price'' \<in> set cols \<and> ''product_rating'' \<in> set cols \<and>
     ''product_category_tree'' \<in> set cols \<and>
     (\<forall>r \<in> set data. keeps parse r \<longrightarrow> \<not> isl (category_root (r ''product_category_tree''))) \<and>
     (\<forall>r \<in> set data. keeps parse r \<longrightarrow>
        \<not> isl (sentiment_of polarity (clean_row parse r ''description''))) \<and>
     final_outputs parse polarity cols data = out"
  by (simp add: analysis_def Let_def read_csv_frame bind_result_Inr_iff
      clean_frame[OF distinct_enumerate_fst] categorise_def add_description_length_def
      add_discount_percentage_def add_sentiment_def getitem_frame_iff series_apply_col
      series_op_col series_scalar_col str_len_col setitem_frame[OF distinct_enumerate_fst]
      ball_enumerate used_not_dropped add_label_mem final_outputs_def final_row_def[abs_def]
      final_columns_def discount_of_def
      del: category_root_simps sentiment_of_simps cong: conj_cong)

lemma isl_category_root: "\<not> isl (category_root x) \<longleftrightarrow> is_str x"
  by (cases x) (auto simp: is_str_def)

lemma isl_sentiment_of:
  "\<not> isl (sentiment_of polarity (clean_row parse r ''description'')) \<longleftrightarrow>
     isna (r ''description'') \<or> is_str (r ''description'')"
  by (cases "r ''description''") (auto simp: clean_row_description is_str_def)

lemma analysis_Inr_iff:
  "analysis parse polarity cols data = Inr out \<longleftrightarrow>
     completes parse cols data \<and> out = final_outputs parse polarity cols data"
  unfolding analysis_steps isl_sentiment_of isl_category_root completes_def used_columns_def
  by auto

lemma in_col_enumerate:
  "(i, x) \<in> set (col v P (enumerate 0 data)) \<longleftrightarrow>
     i < length data \<and> P (data ! i) \<and> x = v (data ! i)"
  by (auto simp: col_def in_set_enumerate_eq)

lemma map_fst_col_enumerate:
  "map fst (col v P (enumerate 0 data)) = filter (\<lambda>i. P (data ! i)) [0..<length data]"
proof -
  have "map fst (col v P (enumerate 0 data)) = map fst (filter (\<lambda>(i, r). P r) (enumerate 0 data))"
    by (simp add: col_def case_prod_unfold comp_def)
  also have "\<dots> = map fst (filter (\<lambda>p. P (data ! fst p)) (enumerate 0 data))"
    by (rule arg_cong[where f="map fst"], rule filter_cong) (auto simp: in_set_enumerate_eq)
  also have "\<dots> = map fst (filter ((\<lambda>i. P (data ! i)) \<circ> fst) (enumerate 0 data))"
    by (simp add: comp_def)
  also have "\<dots> = filter (\<lambda>i. P (data ! i)) (map fst (enumerate 0 data))"
    by (simp only: filter_map)
  finally show ?thesis by simp
qed

lemma cleaned_final:
  assumes "analysis parse polarity cols data = Inr out"
  shows "rows (cleaned out) = col (final_row parse polarity) (keeps parse) (enumerate 0 data)"
    and "columns (cleaned out) = final_columns cols"
    and "cleaned_data out = to_csv False (cleaned out)"
    and "completes parse cols data"
  using assms unfolding analysis_Inr_iff
  by (simp_all add: final_outputs_def Let_def frame_def)

subsection \<open>The filters and the sample file\<close>

lemma keeps_passes: "keeps parse r \<longleftrightarrow> passes_filters parse r"
  by (auto simp: keeps_def passes_filters_def parses_as_number_def strictly_positive_def
      to_numeric_cell_Float)

lemma sample_completes: "completes sample_parse sample_columns sample_data"
  by code_simp

lemma sample_kept:
  "filter (\<lambda>i. keeps sample_parse (sample_data ! i)) [0..<length sample_data] = [0, 3, 6]"
  by code_simp

lemma sample_run:
  "analysis sample_parse sample_polarity sample_columns sample_data =
     Inr (final_outputs sample_parse sample_polarity sample_columns sample_data)"
  using sample_completes by (simp add: analysis_Inr_iff)

subsection \<open>Rankings\<close>

lemma value_counts_sorted: "sorted_wrt (\<ge>) (map snd (value_counts s))"
proof -
  have "sorted (map (\<lambda>(v, n). - int n) (value_counts s))"
    unfolding value_counts_def Let_def by (rule sorted_sort_key)
  then show ?thesis
    by (simp add: sorted_map sorted_wrt_map case_prod_unfold)
qed

lemma set_value_counts:
  "set (value_counts s) =
     (\<lambda>v. (v, count_list (filter (\<lambda>x. \<not> isna x) (map snd s)) v)) `
       set (filter (\<lambda>x. \<not> isna x) (map snd s))"
  by (simp add: value_counts_def Let_def)

lemma sorted_hd_max:
  "sorted_wrt (\<ge>) (map snd xs) \<Longrightarrow> (v, n) \<in> set xs \<Longrightarrow> (n::nat) \<le> snd (hd xs)"
  by (cases xs) auto

lemma head_sorted: "sorted_wrt (\<ge>) (map snd xs) \<Longrightarrow> sorted_wrt (\<ge>) (map snd (head n xs))"
  by (simp add: head_def sorted_wrt_take flip: take_map)

lemma ranking_facts:
  assumes "\<forall>x \<in> set vals. \<not> isna x" and "map snd s = vals"
  shows "sorted_wrt (\<ge>) (map snd (head 10 (value_counts s)))"
    and "\<forall>(v, n) \<in> set (head 10 (value_counts s)). v \<in> set vals \<and> n = count_list vals v"
    and "\<forall>v \<in> set vals. head 10 (value_counts s) \<noteq> [] \<and>
           count_list vals v \<le> snd (hd (head 10 (value_counts s)))"
proof -
  have f: "filter (\<lambda>x. \<not> isna x) (map snd s) = vals"
    using assms by (simp add: filter_id_conv)
  have st: "set (value_counts s) = (\<lambda>v. (v, count_list vals v)) ` set vals"
    by (simp add: set_value_counts f)
  show "sorted_wrt (\<ge>) (map snd (head 10 (value_counts s)))"
    by (rule head_sorted[OF value_counts_sorted])
  show "\<forall>(v, n) \<in> set (head 10 (value_counts s)). v \<in> set vals \<and> n = count_list vals v"
    using set_take_subset[of 10 "value_counts s"] st by (auto simp: head_def)
  show "\<forall>v \<in> set vals. head 10 (value_counts s) \<noteq> [] \<and>
           count_list vals v \<le> snd (hd (head 10 (value_counts s)))"
  proof
    fix v assume v: "v \<in> set vals"
    then have m: "(v, count_list vals v) \<in> set (value_counts s)" using st by auto
    then have ne: "value_counts s \<noteq> []" by auto
    have "count_list vals v \<le> snd (hd (value_counts s))"
      by (rule sorted_hd_max[OF value_counts_sorted m])
    with ne show "head 10 (value_counts s) \<noteq> [] \<and>
           count_list vals v \<le> snd (hd (head 10 (value_counts s)))"
      by (cases "value_counts s") (auto simp: head_def)
  qed
qed

lemma final_row_simps:
  "final_row parse polarity r ''brand'' = r ''brand''"
  "final_row parse polarity r ''product_category_tree'' =
     projr (category_root (r ''product_category_tree''))"
  "final_row parse polarity r ''retail_price'' = Float (numeric parse (r ''retail_price''))"
  "final_row parse polarity r ''discounted_price'' =
     Float (numeric parse (r ''discounted_price''))"
  "final_row parse polarity r ''product_rating'' = Float (numeric parse (r ''product_rating''))"
  "final_row parse polarity r ''description'' =
     (if isna (r ''description'') then Str [] else r ''description'')"
  "final_row parse polarity r ''description_length'' =
     (case (if isna (r ''description'') then Str [] else r ''description'') of
        Float _ \<Rightarrow> Float NaN | Str t \<Rightarrow> Float (Fin (real (length t))))"
  "final_row parse polarity r ''discount_percentage'' =
     Float (discount_of (numeric parse (r ''retail_price''))
              (numeric parse (r ''discounted_price'')))"
  "final_row parse polarity r ''sentiment'' =
     projr (sentiment_of polarity (if isna (r ''description'') then Str [] else r ''description''))"
  by (simp_all add: final_row_def clean_row_description)

lemma column_values_final:
  assumes "analysis parse polarity cols data = Inr out"
  shows "column_values c (cleaned out) =
           map snd (col (\<lambda>r. final_row parse polarity r c) (keeps parse) (enumerate 0 data))"
  by (simp add: column_values_def cleaned_final(1)[OF assms] col_def case_prod_unfold comp_def)

lemma completes_row:
  "completes parse cols data \<Longrightarrow> r \<in> set data \<Longrightarrow> keeps parse r \<Longrightarrow>
     is_str (r ''product_category_tree'') \<and> (isna (r ''description'') \<or> is_str (r ''description''))"
  by (auto simp: completes_def)

lemma set_col_enumerate:
  "set (map snd (col v P (enumerate 0 data))) = v ` {r \<in> set data. P r}"
proof -
  have "x \<in> set (map snd (col v P (enumerate 0 data))) \<longleftrightarrow> x \<in> v ` {r \<in> set data. P r}" for x
  proof -
    have "x \<in> set (map snd (col v P (enumerate 0 data))) \<longleftrightarrow>
          (\<exists>i. (i, x) \<in> set (col v P (enumerate 0 data)))"
      by force
    also have "\<dots> \<longleftrightarrow> (\<exists>i < length data. P (data ! i) \<and> x = v (data ! i))"
      by (auto simp: in_col_enumerate)
    also have "\<dots> \<longleftrightarrow> x \<in> v ` {r \<in> set data. P r}"
      by (auto simp: in_set_conv_nth)
    finally show ?thesis .
  qed
  then show ?thesis by blast
qed

lemma sample_rankings:
  "category_counts (final_outputs sample_parse sample_polarity sample_columns sample_data) =
     [(Str ''Toys'', 2), (Str ''Clothing '', 1)]"
  "brand_counts (final_outputs sample_parse sample_polarity sample_columns sample_data) =
     [(Str ''Bolt'', 2), (Str ''Acme'', 1)]"
  by code_simp+

subsection \<open>Rows of the cleaned table and their discount\<close>

lemma in_cleaned_rows:
  assumes "analysis parse polarity cols data = Inr out"
  shows "(i, r) \<in> set (rows (cleaned out)) \<longleftrightarrow>
           i < length data \<and> keeps parse (data ! i) \<and> r = final_row parse polarity (data ! i)"
  by (simp add: cleaned_final(1)[OF assms] in_col_enumerate)


lemma sample_length: "length sample_data = 7"
  by (simp add: sample_data_def)

lemma sample_row0:
  "keeps sample_parse (sample_data ! 0)"
  "final_row sample_parse sample_polarity (sample_data ! 0) ''retail_price'' = Float (Fin 1000)"
  "final_row sample_parse sample_polarity (sample_data ! 0) ''discounted_price'' = Float (Fin 800)"
  by code_simp+




subsection \<open>Splitting a category path\<close>

lemma split_no_sep: "sep \<noteq> [] \<Longrightarrow> \<not> occurs sep s \<Longrightarrow> split_from sep cur s = [rev cur @ s]"
  by (induction s arbitrary: cur) auto

lemma prefix_gtgt:
  "prefix ''>>'' (c # s) \<longleftrightarrow> c = CHR ''>'' \<and> (\<exists>t. s = CHR ''>'' # t)"
  by (cases s) auto

lemma split_first_sep:
  "\<not> occurs ''>>'' (pre @ ''>'') \<Longrightarrow>
     split_from ''>>'' cur (pre @ ''>>'' @ rest) = (rev cur @ pre) # split_from ''>>'' [] rest"
proof (induction pre arbitrary: cur)
  case Nil
  then show ?case by simp
next
  case (Cons c pre)
  from Cons.prems have a: "\<not> prefix ''>>'' (c # pre @ ''>'')" and b: "\<not> occurs ''>>'' (pre @ ''>'')"
    by simp_all
  from a have "\<not> prefix ''>>'' (c # pre @ ''>>'' @ rest)"
    by (cases pre) auto
  then show ?case using Cons.IH[OF b] by simp
qed

lemma root_of_no_sep: "\<not> occurs ''>>'' s \<Longrightarrow> root_of s = drop 2 s"
  by (simp add: root_of_def split_no_sep slice_from_def)

lemma root_of_first:
  "length p = 2 \<Longrightarrow> \<not> occurs ''>>'' (p @ seg @ ''>'') \<Longrightarrow> root_of (p @ seg @ ''>>'' @ rest) = seg"
  using split_first_sep[of "p @ seg" "[]" rest]
  by (simp add: root_of_def slice_from_def)

lemma category_root_error: "category_root x = Inl e \<Longrightarrow> e = AttributeError \<and> (\<exists>a. x = Float a)"
  by (cases x) auto

lemma sample_first_segment:
  "(sample_data ! 0) ''product_category_tree'' =
     Str (''[\"'' @ ''Clothing '' @ ''>>'' @ '' Women's Clothing >> ...'')"
  "\<not> occurs ''>>'' (''[\"'' @ ''Clothing '' @ ''>'')"
  by code_simp+

lemma series_apply_InlD:
  "series_apply f s = Inl e \<Longrightarrow> \<exists>x \<in> set (map snd s). f x = Inl e"
  unfolding series_apply_def
  by (drule try_map_InlD) (force split: sum.splits)

lemma getitem_frame:
  "getitem c (frame cs P g rs) =
     (if c \<in> set cs then Inr (col (\<lambda>r. g r c) P rs) else Inl (KeyError c))"
  by (simp add: getitem_def frame_def col_def case_prod_unfold comp_def)

lemma analysis_category_fault:
  assumes cols: "set dropped_columns \<subseteq> set cols" "set used_columns \<subseteq> set cols"
    and r: "r \<in> set data" "keeps parse r" "r ''product_category_tree'' = Float a"
  shows "analysis parse polarity cols data = Inl AttributeError"
proof -
  let ?rs = "enumerate 0 data"
  let ?cs = "filter (\<lambda>c. c \<notin> set dropped_columns) cols"
  let ?df = "frame ?cs (keeps parse) (clean_row parse) ?rs"
  let ?tree = "col (\<lambda>r. clean_row parse r ''product_category_tree'') (keeps parse) ?rs"
  have c: "clean parse (read_csv cols data) = Inr ?df"
    using cols by (simp add: read_csv_frame clean_frame[OF distinct_enumerate_fst] used_columns_def)
  have g: "getitem ''product_category_tree'' ?df = Inr ?tree"
    using cols by (simp add: getitem_frame used_columns_def used_not_dropped)
  have "series_apply category_root ?tree \<noteq> Inr s" for s
    using r by (auto simp: series_apply_col ball_enumerate)
  then obtain e where e: "series_apply category_root ?tree = Inl e"
    by (cases "series_apply category_root ?tree") auto
  from series_apply_InlD[OF e] have "e = AttributeError"
    by (auto dest: category_root_error)
  with e have "categorise ?df = Inl AttributeError"
    by (simp add: categorise_def g bind_result_def)
  then show ?thesis
    by (simp add: analysis_def Let_def c bind_result_def)
qed

lemma no_category_member: "no_category_data ! 0 \<in> set no_category_data"
  by (simp add: no_category_data_def)

lemma no_category_facts:
  "set dropped_columns \<subseteq> set sample_columns" "set used_columns \<subseteq> set sample_columns"
  "passes_filters sample_parse (no_category_data ! 0)"
  "(no_category_data ! 0) ''product_category_tree'' = Float NaN"
  "\<not> occurs ''>>'' ''[\"Toys''"
  by code_simp+


subsection \<open>The table at line 106\<close>

lemma stages_before_discount:
  assumes "clean parse (read_csv cols data) = Inr df1" and "categorise df1 = Inr df2"
    and "add_description_length df2 = Inr df3"
  shows "\<exists>cs g. df3 = frame cs (keeps parse) g (enumerate 0 data) \<and>
           ''retail_price'' \<in> set cs \<and> ''discounted_price'' \<in> set cs \<and>
           (\<forall>r. g r ''retail_price'' = Float (numeric parse (r ''retail_price'')) \<and>
                g r ''discounted_price'' = Float (numeric parse (r ''discounted_price'')))"
proof -
  let ?rs = "enumerate 0 data"
  let ?cs = "filter (\<lambda>c. c \<notin> set dropped_columns) cols"
  note d = distinct_enumerate_fst[of 0 data]
  from assms(1) have c: "''retail_price'' \<in> set cols" "''discounted_price'' \<in> set cols"
    and df1: "df1 = frame ?cs (keeps parse) (clean_row parse) ?rs"
    by (simp_all add: read_csv_frame clean_frame[OF d])
  from assms(2) obtain g2 where df2: "df2 = frame ?cs (keeps parse) g2 ?rs"
    and g2: "\<And>r. g2 r = (clean_row parse r)(''product_category_tree'' :=
                projr (category_root (clean_row parse r ''product_category_tree'')))"
    unfolding df1
    by (auto simp: categorise_def bind_result_Inr_iff getitem_frame_iff series_apply_col
        setitem_frame[OF d] add_label_mem)
  from assms(3) obtain g3 where
    df3: "df3 = frame (add_label ''description_length'' ?cs) (keeps parse) g3 ?rs"
    and g3: "\<And>r. g3 r = (g2 r)(''description_length'' :=
                (case g2 r ''description'' of Float _ \<Rightarrow> Float NaN
                 | Str t \<Rightarrow> Float (Fin (real (length t)))))"
    unfolding df2
    by (auto simp: add_description_length_def bind_result_Inr_iff getitem_frame_iff str_len_col
        setitem_frame[OF d])
  show ?thesis
    using c by (intro exI[of _ "add_label ''description_length'' ?cs"] exI[of _ g3])
      (simp add: df3 g3 g2 used_not_dropped)
qed

lemma add_discount_percentage_ok:
  assumes d: "distinct (map fst rs)"
    and c: "''retail_price'' \<in> set cs" "''discounted_price'' \<in> set cs"
    and g: "\<And>r. g r ''retail_price'' = Float (rp r)" "\<And>r. g r ''discounted_price'' = Float (dp r)"
  shows "\<exists>df. add_discount_percentage (frame cs P g rs) = Inr df"
  by (simp add: add_discount_percentage_def bind_result_Inr_iff getitem_frame_iff series_op_col
      series_scalar_col setitem_frame[OF d] c g)

lemma sample_stages_eval:
  "(case clean sample_parse (read_csv sample_columns sample_data) of Inl e \<Rightarrow> False
    | Inr df1 \<Rightarrow> (case categorise df1 of Inl e \<Rightarrow> False
       | Inr df2 \<Rightarrow> (case add_description_length df2 of Inl e \<Rightarrow> False
          | Inr df3 \<Rightarrow> column_values ''retail_price'' df3 =
                         [Float (Fin 1000), Float (Fin 500), Float (Fin 200)])))"
  by code_simp

lemma sample_stages:
  "\<exists>df1 df2 df3. clean sample_parse (read_csv sample_columns sample_data) = Inr df1 \<and>
     categorise df1 = Inr df2 \<and> add_description_length df2 = Inr df3 \<and>
     column_values ''retail_price'' df3 = [Float (Fin 1000), Float (Fin 500), Float (Fin 200)]"
  using sample_stages_eval by (auto split: sum.splits)

subsection \<open>The file written\<close>

lemma final_columns_set:
  "set (final_columns cols) =
     (set cols - set dropped_columns) \<union> {''description_length'', ''discount_percentage'', ''sentiment''}"
  by (auto simp: final_columns_def)

lemma final_columns_fresh:
  "''description_length'' \<notin> set cols \<Longrightarrow> ''discount_percentage'' \<notin> set cols \<Longrightarrow>
   ''sentiment'' \<notin> set cols \<Longrightarrow>
   final_columns cols = filter (\<lambda>c. c \<notin> set dropped_columns) cols @
     [''description_length'', ''discount_percentage'', ''sentiment'']"
  by (simp add: final_columns_def add_label_def)

lemma sample_file:
  "(case analysis sample_parse sample_polarity sample_columns sample_data of
      Inl e \<Rightarrow> None | Inr out \<Rightarrow> Some (cleaned_data out)) =
   Some \<lparr>header = [''product_name'', ''product_category_tree'', ''retail_price'',
                   ''discounted_price'', ''description'', ''product_rating'', ''brand'',
                   ''description_length'', ''discount_percentage'', ''sentiment''],
         lines = [[Float NaN, Str ''Clothing '', Float (Fin 1000), Float (Fin 800), Str ''good'',
                   Float (Fin (9 / 2)), Str ''Acme'', Float (Fin 4), Float (Fin 20),
                   Float (Fin (1 / 2))],
                  [Float NaN, Str ''Toys'', Float (Fin 500), Float (Fin 700), Str [],
                   Float (Fin 3), Str ''Bolt'', Float (Fin 0), Float (Fin (- 40)), Float (Fin 0)],
                  [Float NaN, Str ''Toys'', Float (Fin 200), Float (Fin 0), Str ''good'',
                   Float (Fin 4), Str ''Bolt'', Float (Fin 4), Float (Fin 100),
                   Float (Fin (1 / 2))]]\<rparr>"
  by code_simp

lemma sample_fresh:
  "''description_length'' \<notin> set sample_columns \<and> ''discount_percentage'' \<notin> set sample_columns \<and>
   ''sentiment'' \<notin> set sample_columns"
  "filter (\<lambda>c. c \<notin> set dropped_columns) sample_columns =
     [''product_name'', ''product_category_tree'', ''retail_price'', ''discounted_price'',
      ''description'', ''product_rating'', ''brand'']"
  by code_simp+



section \<open>The claims\<close>

text \<open>
  C1. The rows of the table after the cleaning (line 39), and the rows of the cleaned
  table of a run that completes, are the rows of the file that pass the filters, in the
  order of the file: a row of the file is in the cleaned table if and only if its brand
  is not missing, its retail price parses as a number and is strictly positive, its
  discounted price parses as a number and its rating parses as a number. The file written
  has one line for each of them.
\<close>

theorem cleaned_rows_iff:
  "(clean parse (read_csv cols data) = Inr df \<longrightarrow>
      map fst (rows df) = filter (\<lambda>i. passes_filters parse (data ! i)) [0..<length data]) \<and>
   (analysis parse polarity cols data = Inr out \<longrightarrow>
      map fst (rows (cleaned out)) =
        filter (\<lambda>i. passes_filters parse (data ! i)) [0..<length data] \<and>
      (\<forall>i. (\<exists>r. (i, r) \<in> set (rows (cleaned out))) \<longleftrightarrow>
             i < length data \<and> passes_filters parse (data ! i)) \<and>
      length (lines (cleaned_data out)) = length (rows (cleaned out)))"
proof (intro conjI impI)
  assume "clean parse (read_csv cols data) = Inr df"
  then have "df = frame (filter (\<lambda>c. c \<notin> set dropped_columns) cols) (keeps parse)
                    (clean_row parse) (enumerate 0 data)"
    by (simp add: read_csv_frame clean_frame[OF distinct_enumerate_fst])
  then have "rows df = col (clean_row parse) (keeps parse) (enumerate 0 data)"
    by (simp add: frame_def)
  then show "map fst (rows df) =
               filter (\<lambda>i. passes_filters parse (data ! i)) [0..<length data]"
    by (simp add: map_fst_col_enumerate keeps_passes)
next
  assume run: "analysis parse polarity cols data = Inr out"
  show "map fst (rows (cleaned out)) =
          filter (\<lambda>i. passes_filters parse (data ! i)) [0..<length data]"
    by (simp add: cleaned_final(1)[OF run] map_fst_col_enumerate keeps_passes)
  show "\<forall>i. (\<exists>r. (i, r) \<in> set (rows (cleaned out))) \<longleftrightarrow>
               i < length data \<and> passes_filters parse (data ! i)"
    by (simp add: cleaned_final(1)[OF run] in_col_enumerate keeps_passes)
  show "length (lines (cleaned_data out)) = length (rows (cleaned out))"
    by (simp add: cleaned_final(3)[OF run] to_csv_def)
qed

theorem cleaned_rows_iff_witness:
  "\<exists>df out. clean sample_parse (read_csv sample_columns sample_data) = Inr df \<and>
     map fst (rows df) = [0, 3, 6] \<and>
     analysis sample_parse sample_polarity sample_columns sample_data = Inr out \<and>
     map fst (rows (cleaned out)) = [0, 3, 6]"
proof -
  let ?out = "final_outputs sample_parse sample_polarity sample_columns sample_data"
  let ?kept = "filter (\<lambda>i. passes_filters sample_parse (sample_data ! i)) [0..<length sample_data]"
  from sample_stages obtain df where
    c: "clean sample_parse (read_csv sample_columns sample_data) = Inr df" by blast
  note t = cleaned_rows_iff[of sample_parse sample_columns sample_data df sample_polarity ?out]
  have k: "?kept = [0, 3, 6]"
    using sample_kept by (simp only: keeps_passes)
  from t c have "map fst (rows df) = ?kept" by blast
  moreover from t sample_run have "map fst (rows (cleaned ?out)) = ?kept" by blast
  ultimately show ?thesis using c sample_run k
    by (intro exI[of _ df] exI[of _ ?out] conjI) simp_all
qed

text \<open>
  C7. When the run completes, each of the two rankings (categories, brands) has at most
  ten entries, ordered by count, highest first: every entry's count is at least the next
  entry's. An entry's count is the number of rows of the cleaned table with that category
  (that brand), and no category (brand) of the cleaned table has more rows than the
  first entry.
\<close>

theorem rankings_descending:
  assumes "analysis parse polarity cols data = Inr out"
  shows "sorted_wrt (\<ge>) (map snd (category_counts out)) \<and>
         sorted_wrt (\<ge>) (map snd (brand_counts out)) \<and>
         length (category_counts out) \<le> 10 \<and> length (brand_counts out) \<le> 10 \<and>
         (\<forall>(v, n) \<in> set (category_counts out).
            v \<in> set (column_values ''product_category_tree'' (cleaned out)) \<and>
            n = count_list (column_values ''product_category_tree'' (cleaned out)) v) \<and>
         (\<forall>(v, n) \<in> set (brand_counts out).
            v \<in> set (column_values ''brand'' (cleaned out)) \<and>
            n = count_list (column_values ''brand'' (cleaned out)) v) \<and>
         (\<forall>v \<in> set (column_values ''product_category_tree'' (cleaned out)).
            category_counts out \<noteq> [] \<and>
            count_list (column_values ''product_category_tree'' (cleaned out)) v
              \<le> snd (hd (category_counts out))) \<and>
         (\<forall>v \<in> set (column_values ''brand'' (cleaned out)).
            brand_counts out \<noteq> [] \<and>
            count_list (column_values ''brand'' (cleaned out)) v \<le> snd (hd (brand_counts out)))"
proof -
  let ?rs = "enumerate 0 data"
  let ?cat = "col (\<lambda>r. projr (category_root (r ''product_category_tree''))) (keeps parse) ?rs"
  let ?br = "col (\<lambda>r. r ''brand'') (keeps parse) ?rs"
  have out: "out = final_outputs parse polarity cols data" and c: "completes parse cols data"
    using assms by (simp_all add: analysis_Inr_iff)
  have cc: "category_counts out = head 10 (value_counts ?cat)"
    and bc: "brand_counts out = head 10 (value_counts ?br)"
    by (simp_all add: out final_outputs_def Let_def)
  have cv: "map snd ?cat = column_values ''product_category_tree'' (cleaned out)"
    and bv: "map snd ?br = column_values ''brand'' (cleaned out)"
    by (simp_all add: column_values_final[OF assms] final_row_simps)
  have cn: "\<forall>x \<in> set (column_values ''product_category_tree'' (cleaned out)). \<not> isna x"
  proof
    fix x assume "x \<in> set (column_values ''product_category_tree'' (cleaned out))"
    then obtain r where r: "r \<in> set data" "keeps parse r"
      and x: "x = projr (category_root (r ''product_category_tree''))"
      unfolding cv[symmetric] set_col_enumerate by auto
    from completes_row[OF c r] show "\<not> isna x"
      by (cases "r ''product_category_tree''") (auto simp: x is_str_def)
  qed
  have bn: "\<forall>x \<in> set (column_values ''brand'' (cleaned out)). \<not> isna x"
    unfolding bv[symmetric] set_col_enumerate by (auto simp: keeps_def)
  have "length (category_counts out) \<le> 10" "length (brand_counts out) \<le> 10"
    by (simp_all add: cc bc head_def)
  then show ?thesis
    using ranking_facts[OF cn cv] ranking_facts[OF bn bv] unfolding cc bc by blast
qed

theorem rankings_descending_witness:
  "\<exists>out. analysis sample_parse sample_polarity sample_columns sample_data = Inr out \<and>
         category_counts out = [(Str ''Toys'', 2), (Str ''Clothing '', 1)] \<and>
         brand_counts out = [(Str ''Bolt'', 2), (Str ''Acme'', 1)] \<and>
         sorted_wrt (\<ge>) (map snd (category_counts out)) \<and>
         sorted_wrt (\<ge>) (map snd (brand_counts out))"
proof -
  let ?out = "final_outputs sample_parse sample_polarity sample_columns sample_data"
  have "sorted_wrt (\<ge>) (map snd (category_counts ?out))"
    and "sorted_wrt (\<ge>) (map snd (brand_counts ?out))"
    using rankings_descending[OF sample_run] by blast+
  with sample_run sample_rankings show ?thesis by (intro exI[of _ ?out] conjI)
qed




text \<open>
  C3, as amended. When the run completes, the category of a row of the cleaned table
  whose path is a two-character prefix \<open>p\<close>, a first segment \<open>seg\<close>, the delimiter and a
  rest (the delimiter occurring nowhere before) is \<open>seg\<close>: the text between the prefix
  and the first delimiter, with the space that stands before the delimiter when the path
  has one. On the path of the specification's example it is the word Clothing followed by
  a space.
\<close>

theorem category_first_segment:
  assumes "analysis parse polarity cols data = Inr out"
    and "(i, r) \<in> set (rows (cleaned out))"
    and "(data ! i) ''product_category_tree'' = Str (p @ seg @ ''>>'' @ rest)"
    and "length p = 2" and "\<not> occurs ''>>'' (p @ seg @ ''>'')"
  shows "r ''product_category_tree'' = Str seg"
proof -
  from assms(1,2) have "r = final_row parse polarity (data ! i)"
    by (simp add: in_cleaned_rows)
  then have "r ''product_category_tree'' = Str (root_of (p @ seg @ ''>>'' @ rest))"
    by (simp add: final_row_simps assms(3))
  then show ?thesis by (simp only: root_of_first[OF assms(4,5)])
qed

theorem category_first_segment_witness:
  "\<exists>out r. analysis sample_parse sample_polarity sample_columns sample_data = Inr out \<and>
           (0, r) \<in> set (rows (cleaned out)) \<and>
           (sample_data ! 0) ''product_category_tree'' = Str ''[\"Clothing >> Women's Clothing >> ...'' \<and>
           r ''product_category_tree'' = Str ''Clothing ''"
proof -
  let ?out = "final_outputs sample_parse sample_polarity sample_columns sample_data"
  let ?r = "final_row sample_parse sample_polarity (sample_data ! 0)"
  have m: "(0, ?r) \<in> set (rows (cleaned ?out))"
    using sample_row0(1) sample_length by (subst in_cleaned_rows[OF sample_run]) simp
  have "?r ''product_category_tree'' = Str ''Clothing ''"
    by (rule category_first_segment[OF sample_run m sample_first_segment(1) _ sample_first_segment(2)]) simp
  moreover have "(sample_data ! 0) ''product_category_tree'' = Str ''[\"Clothing >> Women's Clothing >> ...''"
    by code_simp
  ultimately show ?thesis using sample_run m
    by (intro exI[of _ ?out] exI[of _ ?r] conjI)
qed

text \<open>
  C3 as stated fails on its own example: the derived category is not the bare word
  Clothing, it ends with the space that precedes the delimiter.
\<close>

theorem category_example_not_clothing:
  "category_root (Str ''[\"Clothing >> Women's Clothing >> ...'') = Inr (Str ''Clothing '') \<and>
   category_root (Str ''[\"Clothing >> Women's Clothing >> ...'') \<noteq> Inr (Str ''Clothing'')"
  by code_simp

text \<open>
  C6, as amended. A category path that is a string never makes the derivation raise: when
  it lacks the delimiter, the derived category is the whole path without its first two
  characters. The derivation raises, \<^verbatim>\<open>AttributeError\<close>, on a path that is not a string
  (a missing one), and the run of a file with such a row among the rows that pass the
  filters ends with that error.
\<close>

theorem category_no_delimiter:
  "(\<not> occurs ''>>'' s \<longrightarrow> category_root (Str s) = Inr (Str (drop 2 s))) \<and>
   \<not> isl (category_root (Str s)) \<and>
   category_root (Float a) = Inl AttributeError \<and>
   (set dropped_columns \<subseteq> set cols \<and> set used_columns \<subseteq> set cols \<and> r \<in> set data \<and>
    passes_filters parse r \<and> r ''product_category_tree'' = Float a \<longrightarrow>
      analysis parse polarity cols data = Inl AttributeError)"
  using analysis_category_fault[of cols r data parse a polarity]
  by (simp add: root_of_no_sep keeps_passes)

theorem category_no_delimiter_witness:
  "category_root (Str ''[\"Toys'') = Inr (Str ''Toys'') \<and>
   category_root (Float NaN) = Inl AttributeError \<and>
   analysis sample_parse sample_polarity sample_columns no_category_data = Inl AttributeError"
  using category_no_delimiter[where s = "''[\"Toys''" and a = NaN and cols = sample_columns
      and r = "no_category_data ! 0" and data = no_category_data and parse = sample_parse
      and polarity = sample_polarity]
  by (simp add: no_category_facts no_category_member)

text \<open>
  C6 as stated fails: the path Clothing lacks the delimiter, and the derivation returns
  a category for it.
\<close>

theorem category_no_delimiter_counterexample:
  "\<not> occurs ''>>'' ''Clothing'' \<and> category_root (Str ''Clothing'') = Inr (Str ''othing'')"
  by code_simp



text \<open>
  C5. In the table on which line 106 computes the discount percentage (the file after the
  cleaning, the category step and the description length), every row has a float retail
  price that is above zero, hence neither zero nor missing: the division of that line
  never has a zero divisor, and the line raises nothing.
\<close>

theorem retail_price_positive_at_division:
  assumes "clean parse (read_csv cols data) = Inr df1" and "categorise df1 = Inr df2"
    and "add_description_length df2 = Inr df3"
  shows "(\<forall>i r. (i, r) \<in> set (rows df3) \<longrightarrow>
            (\<exists>a. r ''retail_price'' = Float a \<and> fgt a (Fin 0) \<and> a \<noteq> Fin 0 \<and> a \<noteq> NaN)) \<and>
         (\<exists>df4. add_discount_percentage df3 = Inr df4)"
proof -
  from stages_before_discount[OF assms] obtain cs g where
    df3: "df3 = frame cs (keeps parse) g (enumerate 0 data)"
    and c: "''retail_price'' \<in> set cs" "''discounted_price'' \<in> set cs"
    and g: "\<And>r. g r ''retail_price'' = Float (numeric parse (r ''retail_price''))"
      "\<And>r. g r ''discounted_price'' = Float (numeric parse (r ''discounted_price''))"
    by blast
  have "\<exists>a. r ''retail_price'' = Float a \<and> fgt a (Fin 0) \<and> a \<noteq> Fin 0 \<and> a \<noteq> NaN"
    if "(i, r) \<in> set (rows df3)" for i r
  proof -
    from that have k: "keeps parse (data ! i)" and r: "r = g (data ! i)"
      by (simp_all add: df3 frame_def in_col_enumerate)
    from k have "fgt (numeric parse ((data ! i) ''retail_price'')) (Fin 0)"
      by (simp add: keeps_def)
    then show ?thesis
      by (intro exI[of _ "numeric parse ((data ! i) ''retail_price'')"]) (auto simp: r g)
  qed
  moreover have "\<exists>df4. add_discount_percentage df3 = Inr df4"
    unfolding df3 by (rule add_discount_percentage_ok[OF distinct_enumerate_fst c g])
  ultimately show ?thesis by blast
qed

theorem retail_price_positive_at_division_witness:
  "\<exists>df1 df2 df3 df4. clean sample_parse (read_csv sample_columns sample_data) = Inr df1 \<and>
     categorise df1 = Inr df2 \<and> add_description_length df2 = Inr df3 \<and>
     column_values ''retail_price'' df3 = [Float (Fin 1000), Float (Fin 500), Float (Fin 200)] \<and>
     add_discount_percentage df3 = Inr df4"
proof -
  from sample_stages obtain df1 df2 df3 where
    s: "clean sample_parse (read_csv sample_columns sample_data) = Inr df1"
      "categorise df1 = Inr df2" "add_description_length df2 = Inr df3"
    and v: "column_values ''retail_price'' df3 =
              [Float (Fin 1000), Float (Fin 500), Float (Fin 200)]"
    by blast
  from retail_price_positive_at_division[OF s] obtain df4 where
    "add_discount_percentage df3 = Inr df4" by blast
  with s v show ?thesis by blast
qed

text \<open>
  C9. When the run completes, the file written is the cleaned table as it stands: its
  header is the list of the table's columns and nothing else (no column for the index),
  it has one line for each row of the table, in order, holding the row's cell under each
  column, and the rows are those of the input that pass the filters. The columns are the
  columns of the input that the script does not drop, with the three derived columns;
  when the input has no column of those three names, they come last, in the order
  description length, discount percentage, sentiment.
\<close>

theorem cleaned_file_contents:
  assumes "analysis parse polarity cols data = Inr out"
  shows "header (cleaned_data out) = columns (cleaned out) \<and>
         lines (cleaned_data out) = map (\<lambda>(i, r). map r (columns (cleaned out))) (rows (cleaned out)) \<and>
         map fst (rows (cleaned out)) =
           filter (\<lambda>i. passes_filters parse (data ! i)) [0..<length data] \<and>
         set (header (cleaned_data out)) =
           (set cols - set dropped_columns) \<union>
           {''description_length'', ''discount_percentage'', ''sentiment''} \<and>
         (''description_length'' \<notin> set cols \<and> ''discount_percentage'' \<notin> set cols \<and>
          ''sentiment'' \<notin> set cols \<longrightarrow>
            header (cleaned_data out) = filter (\<lambda>c. c \<notin> set dropped_columns) cols @
              [''description_length'', ''discount_percentage'', ''sentiment'']) \<and>
         (\<forall>l \<in> set (lines (cleaned_data out)). length l = length (header (cleaned_data out)))"
  using cleaned_final[OF assms]
  by (auto simp: to_csv_def final_columns_set final_columns_fresh map_fst_col_enumerate keeps_passes)

theorem cleaned_file_contents_witness:
  "\<exists>out. analysis sample_parse sample_polarity sample_columns sample_data = Inr out \<and>
     header (cleaned_data out) =
       [''product_name'', ''product_category_tree'', ''retail_price'', ''discounted_price'',
        ''description'', ''product_rating'', ''brand'', ''description_length'',
        ''discount_percentage'', ''sentiment''] \<and>
     lines (cleaned_data out) =
       [[Float NaN, Str ''Clothing '', Float (Fin 1000), Float (Fin 800), Str ''good'',
         Float (Fin (9 / 2)), Str ''Acme'', Float (Fin 4), Float (Fin 20), Float (Fin (1 / 2))],
        [Float NaN, Str ''Toys'', Float (Fin 500), Float (Fin 700), Str [],
         Float (Fin 3), Str ''Bolt'', Float (Fin 0), Float (Fin (- 40)), Float (Fin 0)],
        [Float NaN, Str ''Toys'', Float (Fin 200), Float (Fin 0), Str ''good'',
         Float (Fin 4), Str ''Bolt'', Float (Fin 4), Float (Fin 100), Float (Fin (1 / 2))]]"
proof -
  let ?out = "final_outputs sample_parse sample_polarity sample_columns sample_data"
  have "header (cleaned_data ?out) = filter (\<lambda>c. c \<notin> set dropped_columns) sample_columns @
              [''description_length'', ''discount_percentage'', ''sentiment'']"
    using cleaned_file_contents[OF sample_run] sample_fresh(1) by blast
  then have h: "header (cleaned_data ?out) =
       [''product_name'', ''product_category_tree'', ''retail_price'', ''discounted_price'',
        ''description'', ''product_rating'', ''brand'', ''description_length'',
        ''discount_percentage'', ''sentiment'']"
    by (simp add: sample_fresh(2))
  from sample_file have "lines (cleaned_data ?out) =
       [[Float NaN, Str ''Clothing '', Float (Fin 1000), Float (Fin 800), Str ''good'',
         Float (Fin (9 / 2)), Str ''Acme'', Float (Fin 4), Float (Fin 20), Float (Fin (1 / 2))],
        [Float NaN, Str ''Toys'', Float (Fin 500), Float (Fin 700), Str [],
         Float (Fin 3), Str ''Bolt'', Float (Fin 0), Float (Fin (- 40)), Float (Fin 0)],
        [Float NaN, Str ''Toys'', Float (Fin 200), Float (Fin 0), Str ''good'',
         Float (Fin 4), Str ''Bolt'', Float (Fin 4), Float (Fin 100), Float (Fin (1 / 2))]]"
    by (simp add: sample_run)
  with h sample_run show ?thesis by (intro exI[of _ ?out] conjI)
qed



end
